theory Spec2Isabelle
  imports Main "HOL-Library.Word"
begin

section \<open>The notifier package: data model\<close>

text \<open>
  The Go package \<^verbatim>\<open>notifier\<close> sends each message of a batch to one URL in a goroutine
  of its own, bounded by a buffered channel used as a counting semaphore
  (\<^verbatim>\<open>workersLimiter\<close>), a \<^verbatim>\<open>sync.WaitGroup\<close> (\<^verbatim>\<open>workers\<close>) and a rate limiter.

  Conventions of the embedding:
  \<^item> Go's \<^verbatim>\<open>uint64\<close>, \<^verbatim>\<open>int\<close> and \<^verbatim>\<open>time.Duration\<close> are \<open>64 word\<close> (a 64-bit
    platform). An \<^verbatim>\<open>int\<close> is read in two's complement (\<open>sint\<close>): \<^verbatim>\<open>x > 0\<close> on an
    \<^verbatim>\<open>int\<close> is the signed comparison \<open>0 <s x\<close>, and the conversion \<^verbatim>\<open>uint64(x)\<close>
    keeps the 64 bits, so it is the identity on the word.
  \<^item> A pointer that may be \<^verbatim>\<open>nil\<close> is an \<open>option\<close>; so is an interface value.
    Dereferencing \<open>None\<close> is the fault \<open>NilDereference\<close>.
  \<^item> A run-time panic or a goroutine that can never continue is a value of type
    \<open>fault\<close>; fallible operations return \<open>fault + 'a\<close>.
  \<^item> \<^verbatim>\<open>[]byte\<close> is a \<open>string\<close> (a list of 8-bit characters).
\<close>

type_synonym uint64 = "64 word"
type_synonym go_int = "64 word"
type_synonym Duration = "64 word"
type_synonym bytes = string

datatype fault =
    NilDereference
  | MakechanSizeOutOfRange
  | NegativeWaitGroupCounter
  | ReceiveBlocksForever

subsection \<open>errors.go: the error kinds and \<^verbatim>\<open>NotifyErr\<close>\<close>

definition TypeContextCanceled :: go_int where
  "TypeContextCanceled = 0"

definition TypeWorkersLimitExceeded :: go_int where
  "TypeWorkersLimitExceeded = 1"

definition TypeSendError :: go_int where
  "TypeSendError = 2"

definition msgSendErrorRequest :: string where
  "msgSendErrorRequest = ''Fail send message, unable to create request''"

definition msgSendErrorRateLimiter :: string where
  "msgSendErrorRateLimiter = ''Fail send message, rate limiter error''"

definition msgSendErrorClient :: string where
  "msgSendErrorClient = ''Fail send message, unable to do request''"

text \<open>
  A value of the interface \<^verbatim>\<open>error\<close> is either a \<^verbatim>\<open>*NotifyErr\<close> (possibly a nil
  pointer of that type) or an error of some other dynamic type, of which only the text is
  kept. The nil interface is \<open>None :: error option\<close>.
\<close>

datatype error =
    ErrorString string
  | NotifyErrPtr "NotifyErr option"
and NotifyErr =
    NotifyErr (Type: go_int) (Message: string) (Err: "error option")

text \<open>\<^verbatim>\<open>func (e *NotifyErr) Unwrap() error { return e.Err }\<close>\<close>

definition Unwrap :: "NotifyErr option \<Rightarrow> fault + error option" where
  "Unwrap e = (case e of None \<Rightarrow> Inl NilDereference | Some e' \<Rightarrow> Inr (Err e'))"

text \<open>
  \<^verbatim>\<open>
  func (e *NotifyErr) Is(target error) bool {
      t, ok := target.(*NotifyErr)
      if !ok { return false }
      return e.Type == t.Type
  }\<close>
  The type assertion succeeds for every \<^verbatim>\<open>*NotifyErr\<close>, the nil pointer included, and
  fails for the nil interface and for every other dynamic type.
\<close>

definition Is :: "NotifyErr option \<Rightarrow> error option \<Rightarrow> fault + bool" where
  "Is e target =
     (case target of
        Some (NotifyErrPtr t) \<Rightarrow>
          (case e of
             None \<Rightarrow> Inl NilDereference
           | Some e' \<Rightarrow>
               (case t of
                  None \<Rightarrow> Inl NilDereference
                | Some t' \<Rightarrow> Inr (Type e' = Type t')))
      | _ \<Rightarrow> Inr False)"

subsection \<open>notifier.go: parameters, the client and its channel\<close>

record ClientParams =
  MaxConcurrentWorkers :: uint64
  MaxRequestRate :: Duration
  MaxRequestsPerRate :: go_int

text \<open>
  \<^verbatim>\<open>DefaultParams\<close> is a package-level pointer to one shared struct, and \<^verbatim>\<open>create\<close>
  writes through the pointer it is given. Parameter structs therefore live in a store,
  \<^verbatim>\<open>*ClientParams\<close> is an address, and \<^verbatim>\<open>DefaultParams\<close> is the address \<open>0\<close>.
\<close>

type_synonym addr = nat
type_synonym store = "addr \<Rightarrow> ClientParams"

definition DefaultParams :: addr where
  "DefaultParams = 0"

definition Second :: Duration where
  "Second = 1000000000"

definition DefaultParams_init :: ClientParams where
  "DefaultParams_init =
     \<lparr>MaxConcurrentWorkers = 100, MaxRequestRate = 10 * Second, MaxRequestsPerRate = 100\<rparr>"

text \<open>The store of a process in which nothing has written to \<^verbatim>\<open>DefaultParams\<close> yet;
  the other addresses hold the zero value of the struct.\<close>

definition store_init :: store where
  "store_init =
     (\<lambda>a. if a = DefaultParams then DefaultParams_init
          else \<lparr>MaxConcurrentWorkers = 0, MaxRequestRate = 0, MaxRequestsPerRate = 0\<rparr>)"

text \<open>The three fields of \<^verbatim>\<open>http.Transport\<close> that the package reads.\<close>

record Transport =
  MaxConnsPerHost :: go_int
  MaxIdleConnsPerHost :: go_int
  MaxIdleConns :: go_int

datatype RoundTripper =
    HttpTransport "Transport option"
  | OtherRoundTripper

record Rlimit =
  Cur :: uint64
  Max :: uint64

text \<open>A \<^verbatim>\<open>chan struct{}\<close> carries no data: its state is its capacity and the number of
  buffered elements.\<close>

record chan =
  chan_cap :: nat
  chan_len :: nat

text \<open>\<^verbatim>\<open>select { case ch <- struct{}{}: ... default: ... }\<close>: the send is taken when
  the buffer has room, and \<open>None\<close> is the default branch.\<close>

definition try_send :: "chan \<Rightarrow> chan option" where
  "try_send ch =
     (if chan_len ch < chan_cap ch then Some (ch\<lparr>chan_len := chan_len ch + 1\<rparr>) else None)"

text \<open>\<^verbatim>\<open><-ch\<close>: with an empty buffer and no sender the receive never returns.\<close>

definition recv :: "chan \<Rightarrow> fault + chan" where
  "recv ch =
     (if 0 < chan_len ch then Inr (ch\<lparr>chan_len := chan_len ch - 1\<rparr>)
      else Inl ReceiveBlocksForever)"

text \<open>The context made by \<^verbatim>\<open>context.WithCancel(context.Background())\<close> is either live
  or canceled, and \<^verbatim>\<open>Err()\<close> is \<^verbatim>\<open>context.Canceled\<close> once it is canceled.\<close>

datatype Context = Live | CanceledCtx

definition Canceled :: error where
  "Canceled = ErrorString ''context canceled''"

definition ctx_Err :: "Context \<Rightarrow> error option" where
  "ctx_Err c = (case c of Live \<Rightarrow> None | CanceledCtx \<Rightarrow> Some Canceled)"

text \<open>A handler is a Go function value: the no-op closure that \<^verbatim>\<open>create\<close> installs, or
  a function of the caller, identified by a value of type \<open>'h\<close>. The nil function is
  \<open>None\<close>.\<close>

datatype 'h ErrorSink = NoOp | Handler 'h

record Limiter =
  every :: Duration
  burst :: go_int

text \<open>The fields of \<^verbatim>\<open>Client\<close>. \<open>workers\<close> is the counter of the \<^verbatim>\<open>sync.WaitGroup\<close>, an
  \<^verbatim>\<open>int32\<close> in Go: it is an \<open>int\<close> here, and the two operations on it, \<^verbatim>\<open>Add(1)\<close> and
  \<^verbatim>\<open>Done()\<close>, panic where the \<^verbatim>\<open>int32\<close> would become negative.\<close>

record 'h Client =
  url :: string
  notifyError :: "'h ErrorSink"
  client :: "RoundTripper option"
  ctx :: Context
  workers :: int
  workersLimiter :: chan
  requestsLimiter :: Limiter

text \<open>
  \<^verbatim>\<open>
  func (c *Client) OnError(handler func(message []byte, err error)) {
      if handler != nil { c.notifyError = handler }
  }\<close>
\<close>

definition OnError :: "'h ErrorSink option \<Rightarrow> 'h Client \<Rightarrow> 'h Client" where
  "OnError handler c =
     (case handler of Some h \<Rightarrow> c\<lparr>notifyError := h\<rparr> | None \<Rightarrow> c)"

text \<open>\<^verbatim>\<open>func (c *Client) Stop() { c.cancel() }\<close>\<close>

definition Stop :: "'h Client \<Rightarrow> 'h Client" where
  "Stop c = c\<lparr>ctx := CanceledCtx\<rparr>"


subsection \<open>Construction\<close>

text \<open>
  \<^verbatim>\<open>
  func calculateOptimalWorkersLimit(transport http.RoundTripper) uint64 {
      var rLimit syscall.Rlimit
      var limit = DefaultParams.MaxConcurrentWorkers
      if err := syscall.Getrlimit(syscall.RLIMIT_NOFILE, &rLimit); err == nil {
          if limit > rLimit.Cur { limit = rLimit.Cur }
      }
      if t, ok := transport.(*http.Transport); ok {
          if t.MaxConnsPerHost > 0 && uint64(t.MaxConnsPerHost) < limit {
              return uint64(t.MaxConnsPerHost)
          }
          if t.MaxIdleConnsPerHost > 0 && uint64(t.MaxIdleConnsPerHost) < limit {
              return uint64(t.MaxIdleConnsPerHost)
          }
          if t.MaxIdleConns > 0 && uint64(t.MaxIdleConns) < limit {
              return uint64(t.MaxIdleConns)
          }
      }
      return limit
  }\<close>
  The result of the system call is an input: \<open>Some rLimit\<close> when \<^verbatim>\<open>err == nil\<close>.
\<close>

definition calculateOptimalWorkersLimit ::
  "RoundTripper option \<Rightarrow> Rlimit option \<Rightarrow> store \<Rightarrow> fault + uint64" where
  "calculateOptimalWorkersLimit transport getrlimit \<sigma> =
     (let limit0 = MaxConcurrentWorkers (\<sigma> DefaultParams);
          limit = (case getrlimit of
                     Some rLimit \<Rightarrow> if Cur rLimit < limit0 then Cur rLimit else limit0
                   | None \<Rightarrow> limit0)
      in case transport of
           Some (HttpTransport None) \<Rightarrow> Inl NilDereference
         | Some (HttpTransport (Some t)) \<Rightarrow>
             if 0 <s MaxConnsPerHost t \<and> MaxConnsPerHost t < limit
               then Inr (MaxConnsPerHost t)
             else if 0 <s MaxIdleConnsPerHost t \<and> MaxIdleConnsPerHost t < limit
               then Inr (MaxIdleConnsPerHost t)
             else if 0 <s MaxIdleConns t \<and> MaxIdleConns t < limit
               then Inr (MaxIdleConns t)
             else Inr limit
         | _ \<Rightarrow> Inr limit)"

text \<open>\<^verbatim>\<open>make(chan struct{}, n)\<close> with \<^verbatim>\<open>n\<close> a \<^verbatim>\<open>uint64\<close>: the run time panics when the
  size, read as an \<^verbatim>\<open>int\<close>, is negative; an element of size zero needs no memory.\<close>

definition make_chan :: "uint64 \<Rightarrow> fault + chan" where
  "make_chan n =
     (if n <s 0 then Inl MakechanSizeOutOfRange
      else Inr \<lparr>chan_cap = unat n, chan_len = 0\<rparr>)"

text \<open>
  \<^verbatim>\<open>
  func create(url string, params *ClientParams, transport http.RoundTripper) *Client {
      if params == nil {
          params = DefaultParams
          params.MaxConcurrentWorkers = calculateOptimalWorkersLimit(transport)
      }
      if params.MaxConcurrentWorkers == 0 { params.MaxConcurrentWorkers = 1 }
      ctx, cancel := context.WithCancel(context.Background())
      n := &Client{url: url, notifyError: func(message []byte, err error) {},
          client: &http.Client{Transport: transport}, ctx: ctx, cancel: cancel,
          workersLimiter:  make(chan struct{}, params.MaxConcurrentWorkers),
          requestsLimiter: rate.NewLimiter(rate.Every(params.MaxRequestRate),
                                           params.MaxRequestsPerRate)}
      return n
  }\<close>
  \<open>resolve_params\<close> is the first \<^verbatim>\<open>if\<close>: it yields the address that \<^verbatim>\<open>params\<close> holds
  afterwards and the store after the write through it.
\<close>

definition resolve_params ::
  "addr option \<Rightarrow> RoundTripper option \<Rightarrow> Rlimit option \<Rightarrow> store \<Rightarrow> fault + (addr \<times> store)" where
  "resolve_params params transport getrlimit \<sigma> =
     (case params of
        None \<Rightarrow>
          (case calculateOptimalWorkersLimit transport getrlimit \<sigma> of
             Inl f \<Rightarrow> Inl f
           | Inr n \<Rightarrow>
               Inr (DefaultParams,
                    \<sigma>(DefaultParams := (\<sigma> DefaultParams)\<lparr>MaxConcurrentWorkers := n\<rparr>)))
      | Some p \<Rightarrow> Inr (p, \<sigma>))"

definition create ::
  "string \<Rightarrow> addr option \<Rightarrow> RoundTripper option \<Rightarrow> Rlimit option \<Rightarrow> store
     \<Rightarrow> fault + ('h Client \<times> store)" where
  "create u params transport getrlimit \<sigma> =
     (case resolve_params params transport getrlimit \<sigma> of
        Inl f \<Rightarrow> Inl f
      | Inr (p, \<sigma>1) \<Rightarrow>
          (let \<sigma>2 = (if MaxConcurrentWorkers (\<sigma>1 p) = 0
                     then \<sigma>1(p := (\<sigma>1 p)\<lparr>MaxConcurrentWorkers := 1\<rparr>) else \<sigma>1)
           in case make_chan (MaxConcurrentWorkers (\<sigma>2 p)) of
                Inl f \<Rightarrow> Inl f
              | Inr ch \<Rightarrow>
                  Inr (\<lparr>url = u, notifyError = NoOp, client = transport, ctx = Live,
                        workers = 0, workersLimiter = ch,
                        requestsLimiter =
                          \<lparr>every = MaxRequestRate (\<sigma>2 p), burst = MaxRequestsPerRate (\<sigma>2 p)\<rparr>\<rparr>,
                       \<sigma>2)))"

text \<open>\<^verbatim>\<open>cap(notifier.workersLimiter)\<close> of the client that a construction returns, as the
  package's tests read it.\<close>

definition cap_workersLimiter :: "fault + ('h Client \<times> store) \<Rightarrow> nat option" where
  "cap_workersLimiter r =
     (case r of Inl f \<Rightarrow> None | Inr (c, \<sigma>) \<Rightarrow> Some (chan_cap (workersLimiter c)))"

text \<open>
  The sizing rule in the words of the specification, for a readable soft limit and a
  \<^verbatim>\<open>*http.Transport\<close>: the minimum of the default 100, the soft limit, and the smallest
  positive transport hint below that minimum.
\<close>

definition spec_workers_limit :: "Rlimit \<Rightarrow> Transport \<Rightarrow> uint64" where
  "spec_workers_limit rLimit t =
     (let m = min 100 (Cur rLimit);
          hints = filter (\<lambda>h. 0 <s h \<and> h < m)
                    [MaxConnsPerHost t, MaxIdleConnsPerHost t, MaxIdleConns t]
      in fold min hints m)"


section \<open>The running system\<close>

text \<open>
  A \<^verbatim>\<open>Client\<close> is shared by the goroutine that calls \<^verbatim>\<open>Notify\<close> and by the worker
  goroutines it starts. The state of the system is the client, the worker goroutines that
  have been started and still hold their slot of the channel (\<open>goroutines\<close>, each with its
  message), the number of worker goroutines that have run their deferred receive and not
  yet their deferred \<^verbatim>\<open>Done\<close> (\<open>returning\<close>), and three records of what has happened,
  each in the order of the events:
  \<^item> \<open>spawned\<close>: the message of every \<^verbatim>\<open>go c.worker(msg)\<close> statement executed;
  \<^item> \<open>sink_calls\<close>: every call \<^verbatim>\<open>c.notifyError(msg, e)\<close>, with the function value that
    \<^verbatim>\<open>c.notifyError\<close> held at the call and the goroutine kind that made it;
  \<^item> \<open>gate_log\<close>: for every \<^verbatim>\<open>select\<close> of \<^verbatim>\<open>Notify\<close>, whether the send on
    \<^verbatim>\<open>workersLimiter\<close> was taken (\<open>True\<close>) or the default branch (\<open>False\<close>).
  What a handler does when it is called is the caller's code and not part of the model;
  a handler does not call back into the client.
\<close>

datatype origin = ByNotify | ByWorker

record 'h sink_call =
  call_by :: origin
  call_handler :: "'h ErrorSink"
  call_message :: bytes
  call_err :: "error option"

record 'h sys =
  cl :: "'h Client"
  goroutines :: "bytes list"
  returning :: nat
  spawned :: "bytes list"
  sink_calls :: "'h sink_call list"
  gate_log :: "bool list"

text \<open>The system right after a construction: no goroutine, nothing recorded.\<close>

definition start :: "'h Client \<Rightarrow> 'h sys" where
  "start c =
     \<lparr>cl = c, goroutines = [], returning = 0, spawned = [], sink_calls = [], gate_log = []\<rparr>"

text \<open>\<^verbatim>\<open>&NotifyErr{Type: t, Message: m, Err: err}\<close>, as a value of the interface
  \<^verbatim>\<open>error\<close>.\<close>

definition new_NotifyErr :: "go_int \<Rightarrow> string \<Rightarrow> error option \<Rightarrow> error option" where
  "new_NotifyErr t m err = Some (NotifyErrPtr (Some (NotifyErr t m err)))"

text \<open>\<^verbatim>\<open>c.notifyError(message, e)\<close>\<close>

definition report :: "origin \<Rightarrow> bytes \<Rightarrow> error option \<Rightarrow> 'h sys \<Rightarrow> 'h sys" where
  "report by message e s =
     s\<lparr>sink_calls := sink_calls s @
          [\<lparr>call_by = by, call_handler = notifyError (cl s),
            call_message = message, call_err = e\<rparr>]\<rparr>"

subsection \<open>The worker\<close>

text \<open>
  The three calls of \<^verbatim>\<open>worker\<close> that can fail are calls into \<^verbatim>\<open>net/http\<close> and
  \<^verbatim>\<open>golang.org/x/time/rate\<close>. Their results are inputs of the model: the error that
  each returns, \<open>None\<close> for nil. A later call is made only when the earlier ones
  succeeded.
\<close>

record outcome =
  request_err :: "error option"
  wait_err :: "error option"
  do_err :: "error option"

text \<open>
  \<^verbatim>\<open>
  func (c *Client) worker(message []byte) {
      defer c.workers.Done()
      defer func() { <-c.workersLimiter }()
      req, err := http.NewRequestWithContext(c.ctx, http.MethodPost, c.url, ...)
      if err != nil {
          e := &NotifyErr{Type: TypeSendError, Message: msgSendErrorRequest, Err: err}
          c.notifyError(message, e)
          return
      }
      if err := c.requestsLimiter.Wait(c.ctx); err != nil {
          e := &NotifyErr{Type: TypeSendError, Message: msgSendErrorRateLimiter, Err: err}
          c.notifyError(message, e)
          return
      }
      if _, err := c.client.Do(req); err != nil {
          e := &NotifyErr{Type: TypeSendError, Message: msgSendErrorClient, Err: err}
          c.notifyError(message, e)
          return
      }
  }\<close>
  \<open>worker_body\<close> is the function up to its \<^verbatim>\<open>return\<close>; the deferred calls then run in
  the reverse order of their \<^verbatim>\<open>defer\<close> statements, whichever \<^verbatim>\<open>return\<close> was taken.
\<close>

definition worker_body :: "outcome \<Rightarrow> bytes \<Rightarrow> 'h sys \<Rightarrow> 'h sys" where
  "worker_body out message s =
     (case request_err out of
        Some err \<Rightarrow>
          report ByWorker message (new_NotifyErr TypeSendError msgSendErrorRequest (Some err)) s
      | None \<Rightarrow>
          (case wait_err out of
             Some err \<Rightarrow>
               report ByWorker message
                 (new_NotifyErr TypeSendError msgSendErrorRateLimiter (Some err)) s
           | None \<Rightarrow>
               (case do_err out of
                  Some err \<Rightarrow>
                    report ByWorker message
                      (new_NotifyErr TypeSendError msgSendErrorClient (Some err)) s
                | None \<Rightarrow> s)))"

text \<open>\<^verbatim>\<open>func() { <-c.workersLimiter }()\<close>\<close>

definition release_slot :: "'h sys \<Rightarrow> fault + 'h sys" where
  "release_slot s =
     (case recv (workersLimiter (cl s)) of
        Inl f \<Rightarrow> Inl f
      | Inr ch \<Rightarrow> Inr (s\<lparr>cl := (cl s)\<lparr>workersLimiter := ch\<rparr>\<rparr>))"

text \<open>\<^verbatim>\<open>c.workers.Done()\<close>, that is \<^verbatim>\<open>Add(-1)\<close>: a counter that would become negative
  panics.\<close>

definition workers_Done :: "'h sys \<Rightarrow> fault + 'h sys" where
  "workers_Done s =
     (if workers (cl s) - 1 < 0 then Inl NegativeWaitGroupCounter
      else Inr (s\<lparr>cl := (cl s)\<lparr>workers := workers (cl s) - 1\<rparr>\<rparr>))"

definition worker :: "outcome \<Rightarrow> bytes \<Rightarrow> 'h sys \<Rightarrow> fault + 'h sys" where
  "worker out message s =
     (case release_slot (worker_body out message s) of
        Inl f \<Rightarrow> Inl f
      | Inr s1 \<Rightarrow> workers_Done s1)"

subsection \<open>What other goroutines do while \<^verbatim>\<open>Notify\<close> runs\<close>

text \<open>
  The two deferred calls of a worker are separate steps, and other goroutines run between
  them.
  \<open>Finish i out\<close>: the worker goroutine at position \<open>i\<close> runs to its \<^verbatim>\<open>return\<close> with the
  results \<open>out\<close> of its three calls and then runs its deferred receive; an \<open>i\<close> that names
  no running goroutine is skipped.
  \<open>Return\<close>: one of the goroutines that have done so runs its deferred \<^verbatim>\<open>Done\<close> and
  ends; it is skipped when there is none.
  \<open>Cancel\<close>: some goroutine calls \<^verbatim>\<open>Stop\<close>.
\<close>

datatype env_ev = Finish nat outcome | Return | Cancel

definition env_step :: "env_ev \<Rightarrow> 'h sys \<Rightarrow> fault + 'h sys" where
  "env_step ev s =
     (case ev of
        Finish i out \<Rightarrow>
          if i < length (goroutines s)
          then (case release_slot
                       (worker_body out (goroutines s ! i)
                          (s\<lparr>goroutines :=
                               take i (goroutines s) @ drop (Suc i) (goroutines s)\<rparr>)) of
                  Inl f \<Rightarrow> Inl f
                | Inr s1 \<Rightarrow> Inr (s1\<lparr>returning := returning s1 + 1\<rparr>))
          else Inr s
      | Return \<Rightarrow>
          if 0 < returning s
          then (case workers_Done s of
                  Inl f \<Rightarrow> Inl f
                | Inr s1 \<Rightarrow> Inr (s1\<lparr>returning := returning s1 - 1\<rparr>))
          else Inr s
      | Cancel \<Rightarrow> Inr (s\<lparr>cl := Stop (cl s)\<rparr>))"

fun run_env :: "env_ev list \<Rightarrow> 'h sys \<Rightarrow> fault + 'h sys" where
  "run_env [] s = Inr s"
| "run_env (ev # evs) s =
     (case env_step ev s of Inl f \<Rightarrow> Inl f | Inr s1 \<Rightarrow> run_env evs s1)"

text \<open>A schedule gives, for each iteration of a loop of \<^verbatim>\<open>Notify\<close>, the events of other
  goroutines that happen before it; iterations beyond its length have none.\<close>

type_synonym schedule = "env_ev list list"

fun sched_hd :: "schedule \<Rightarrow> env_ev list" where
  "sched_hd [] = []"
| "sched_hd (evs # rest) = evs"

subsection \<open>\<^verbatim>\<open>Notify\<close>\<close>

text \<open>
  \<^verbatim>\<open>
  func (c *Client) Notify(messages ...[]byte) (int, error) {
      if err := c.ctx.Err(); err != nil {
          var i int
          for _, msg := range messages {
              e := &NotifyErr{Type: TypeContextCanceled,
                              Message: "Client context canceled", Err: err}
              c.notifyError(msg, e)
              i++
          }
          return i, err
      }
      var i int
      for _, nextMsg := range messages {
          select {
          case c.workersLimiter <- struct{}{}:
              c.workers.Add(1)
              go c.worker(nextMsg)
          default:
              return i, &NotifyErr{Type: TypeWorkersLimitExceeded,
                                   Message: "Workers limit exceeded", Err: nil}
          }
          i++
      }
      return i, nil
  }\<close>
  \<open>Notify_canceled\<close> is the first loop and \<open>Notify_admit\<close> the second. The counter
  \<^verbatim>\<open>i\<close> never exceeds \<^verbatim>\<open>len(messages)\<close>, so it cannot overflow, and is a \<open>nat\<close>.
\<close>

fun Notify_canceled ::
  "error option \<Rightarrow> nat \<Rightarrow> bytes list \<Rightarrow> schedule \<Rightarrow> 'h sys
     \<Rightarrow> fault + ((nat \<times> error option) \<times> 'h sys)" where
  "Notify_canceled err i [] sched s = Inr ((i, err), s)"
| "Notify_canceled err i (msg # messages) sched s =
     (case run_env (sched_hd sched) s of
        Inl f \<Rightarrow> Inl f
      | Inr s1 \<Rightarrow>
          Notify_canceled err (i + 1) messages (tl sched)
            (report ByNotify msg
               (new_NotifyErr TypeContextCanceled ''Client context canceled'' err) s1))"

text \<open>
  \<^verbatim>\<open>c.workers.Add(1); go c.worker(nextMsg)\<close>, after the send has put \<open>ch\<close> in place
  of the channel. The counter of a \<^verbatim>\<open>sync.WaitGroup\<close> is an \<^verbatim>\<open>int32\<close>: \<^verbatim>\<open>Add(1)\<close> at
  2147483647 wraps it to a negative value and panics, and then no goroutine is started.
\<close>

definition spawn :: "chan \<Rightarrow> bytes \<Rightarrow> 'h sys \<Rightarrow> fault + 'h sys" where
  "spawn ch nextMsg s =
     (if 2147483647 < workers (cl s) + 1 then Inl NegativeWaitGroupCounter
      else Inr (s\<lparr>cl := (cl s)\<lparr>workersLimiter := ch, workers := workers (cl s) + 1\<rparr>,
                 goroutines := goroutines s @ [nextMsg],
                 spawned := spawned s @ [nextMsg],
                 gate_log := gate_log s @ [True]\<rparr>))"

fun Notify_admit ::
  "nat \<Rightarrow> bytes list \<Rightarrow> schedule \<Rightarrow> 'h sys \<Rightarrow> fault + ((nat \<times> error option) \<times> 'h sys)" where
  "Notify_admit i [] sched s = Inr ((i, None), s)"
| "Notify_admit i (nextMsg # messages) sched s =
     (case run_env (sched_hd sched) s of
        Inl f \<Rightarrow> Inl f
      | Inr s1 \<Rightarrow>
          (case try_send (workersLimiter (cl s1)) of
             Some ch \<Rightarrow>
               (case spawn ch nextMsg s1 of
                  Inl f \<Rightarrow> Inl f
                | Inr s2 \<Rightarrow> Notify_admit (i + 1) messages (tl sched) s2)
           | None \<Rightarrow>
               Inr ((i, new_NotifyErr TypeWorkersLimitExceeded ''Workers limit exceeded'' None),
                    s1\<lparr>gate_log := gate_log s1 @ [False]\<rparr>)))"

definition Notify ::
  "bytes list \<Rightarrow> schedule \<Rightarrow> 'h sys \<Rightarrow> fault + ((nat \<times> error option) \<times> 'h sys)" where
  "Notify messages sched s =
     (case ctx_Err (ctx (cl s)) of
        Some err \<Rightarrow> Notify_canceled (Some err) 0 messages sched s
      | None \<Rightarrow> Notify_admit 0 messages sched s)"

subsection \<open>Sequences of calls\<close>





text \<open>The calls that the goroutine of \<^verbatim>\<open>Notify\<close> itself made to the handler.\<close>

definition notify_reports :: "'h sys \<Rightarrow> 'h sink_call list" where
  "notify_reports s = filter (\<lambda>c. call_by c = ByNotify) (sink_calls s)"

text \<open>Every running worker holds one slot of the channel, the wait group counts the
  running workers and those between their two deferred calls, and the channel is within
  its capacity.\<close>

definition slots_held :: "'h sys \<Rightarrow> bool" where
  "slots_held s \<longleftrightarrow>
     chan_len (workersLimiter (cl s)) = length (goroutines s) \<and>
     workers (cl s) = int (length (goroutines s) + returning s) \<and>
     chan_len (workersLimiter (cl s)) \<le> chan_cap (workersLimiter (cl s))"

subsection \<open>Inputs for the examples\<close>


definition two_slots :: "string Client" where
  "two_slots =
     \<lparr>url = ''http://localhost:8080'', notifyError = NoOp, client = None, ctx = Live,
      workers = 0, workersLimiter = \<lparr>chan_cap = 2, chan_len = 0\<rparr>,
      requestsLimiter = \<lparr>every = Second, burst = 1\<rparr>\<rparr>"

text \<open>The system in which one worker is running on \<open>two_slots\<close>.\<close>

definition one_running :: "string sys" where
  "one_running =
     \<lparr>cl = two_slots\<lparr>workers := 1, workersLimiter := \<lparr>chan_cap = 2, chan_len = 1\<rparr>\<rparr>,
      goroutines = [''m0''], returning = 0, spawned = [''m0''], sink_calls = [],
      gate_log = [True]\<rparr>"


definition sent :: outcome where
  "sent = \<lparr>request_err = None, wait_err = None, do_err = None\<rparr>"

definition bad_url :: outcome where
  "bad_url =
     \<lparr>request_err = Some (ErrorString ''invalid URL escape''), wait_err = None, do_err = None\<rparr>"

definition limiter_stopped :: outcome where
  "limiter_stopped = \<lparr>request_err = None, wait_err = Some Canceled, do_err = None\<rparr>"

definition refused :: outcome where
  "refused =
     \<lparr>request_err = None, wait_err = None, do_err = Some (ErrorString ''connection refused'')\<rparr>"

definition hinted_transport :: Transport where
  "hinted_transport = \<lparr>MaxConnsPerHost = 30, MaxIdleConnsPerHost = 20, MaxIdleConns = 100\<rparr>"

definition soft_limit :: Rlimit where
  "soft_limit = \<lparr>Cur = 1024, Max = 4096\<rparr>"

definition hinted_client :: "string Client" where
  "hinted_client =
     \<lparr>url = ''http://localhost:8080'', notifyError = NoOp,
      client = Some (HttpTransport (Some hinted_transport)), ctx = Live,
      workers = 0, workersLimiter = \<lparr>chan_cap = 30, chan_len = 0\<rparr>,
      requestsLimiter = \<lparr>every = 10 * Second, burst = 100\<rparr>\<rparr>"

section \<open>Error values\<close>

text \<open>
  C7. For two \<^verbatim>\<open>NotifyErr\<close> values, \<^verbatim>\<open>Is\<close> is true exactly when their \<^verbatim>\<open>Type\<close> fields
  are equal, whatever their messages and wrapped causes are; against the nil interface and
  against an error of any other dynamic type it is false.
\<close>

theorem NotifyErr_Is_by_kind:
  "Is (Some e) (Some (NotifyErrPtr (Some t))) = Inr (Type e = Type t) \<and>
   Is (Some (NotifyErr k m1 c1)) (Some (NotifyErrPtr (Some (NotifyErr k' m2 c2)))) = Inr (k = k') \<and>
   Is (Some e) None = Inr False \<and>
   Is (Some e) (Some (ErrorString x)) = Inr False"
  by (simp add: Is_def)

section \<open>Registering a handler\<close>

lemma OnError_foldl_notifyError:
  "notifyError (foldl (\<lambda>c h. OnError h c) c hs) =
     last (notifyError c # List.map_filter (\<lambda>h. h) hs)"
proof (induction hs arbitrary: c)
  case Nil
  show ?case by (simp add: List.map_filter_simps)
next
  case (Cons h hs)
  then show ?case by (cases h) (simp_all add: List.map_filter_simps OnError_def)
qed

text \<open>
  C8. \<^verbatim>\<open>OnError\<close> with a non-nil handler makes that handler the current one, and with
  nil it leaves the client as it was, so a handler registered before stays in place.
  After any sequence of \<^verbatim>\<open>OnError\<close> calls the current handler is the last non-nil one
  of the sequence, or the handler from before the sequence when all were nil. No other
  field of the client changes.
\<close>

theorem OnError_last_registration_wins:
  "notifyError (OnError (Some h) c) = h \<and>
   OnError None c = c \<and>
   notifyError (OnError None (OnError (Some h) c)) = h \<and>
   notifyError (foldl (\<lambda>c h. OnError h c) c hs) =
     last (notifyError c # List.map_filter (\<lambda>h. h) hs) \<and>
   OnError handler c = c\<lparr>notifyError := notifyError (OnError handler c)\<rparr>"
  by (cases handler) (simp_all add: OnError_foldl_notifyError, simp_all add: OnError_def)

section \<open>Sizing the channel at construction\<close>

lemma small_not_negative:
  fixes v :: "64 word"
  assumes "v \<le> 100"
  shows "\<not> v <s 0"
proof -
  from assms have le: "uint v \<le> 100" by (simp add: word_le_def)
  have a: "- (2 ^ 63) \<le> uint v"
    by (rule order_trans [of _ 0]) simp_all
  from le have b: "uint v < 2 ^ 63" by simp
  have "signed_take_bit 63 (uint v) = uint v"
    using a b by (rule signed_take_bit_int_eq_self)
  then have "sint v = uint v"
    by (simp add: sint_uint)
  then show ?thesis by (simp add: word_sless_alt)
qed


lemma calc_le_default:
  assumes "calculateOptimalWorkersLimit transport getrlimit \<sigma> = Inr v"
  shows "v \<le> MaxConcurrentWorkers (\<sigma> DefaultParams)"
  using assms
  by (auto simp: calculateOptimalWorkersLimit_def Let_def
      split: option.splits RoundTripper.splits if_splits)

lemma calc_first_hint:
  "calculateOptimalWorkersLimit (Some (HttpTransport (Some t))) (Some rLimit) \<sigma> =
     Inr (case List.find
                 (\<lambda>h. 0 <s h \<and> h < min (MaxConcurrentWorkers (\<sigma> DefaultParams)) (Cur rLimit))
                 [MaxConnsPerHost t, MaxIdleConnsPerHost t, MaxIdleConns t] of
            Some h \<Rightarrow> h
          | None \<Rightarrow> min (MaxConcurrentWorkers (\<sigma> DefaultParams)) (Cur rLimit))"
proof -
  have m: "(if Cur rLimit < MaxConcurrentWorkers (\<sigma> DefaultParams) then Cur rLimit
            else MaxConcurrentWorkers (\<sigma> DefaultParams)) =
        min (MaxConcurrentWorkers (\<sigma> DefaultParams)) (Cur rLimit)"
    by (auto simp: min_def)
  show ?thesis
    unfolding calculateOptimalWorkersLimit_def Let_def option.case m
    by simp
qed

lemma calc_no_hints:
  "calculateOptimalWorkersLimit None None \<sigma> = Inr (MaxConcurrentWorkers (\<sigma> DefaultParams))"
  by (simp add: calculateOptimalWorkersLimit_def)

lemma create_nil_calc:
  assumes "calculateOptimalWorkersLimit transport getrlimit \<sigma> = Inr v"
    and "create u None transport getrlimit \<sigma> = Inr (c, \<sigma>')"
  shows "\<sigma>' = \<sigma>(DefaultParams :=
                  (\<sigma> DefaultParams)\<lparr>MaxConcurrentWorkers := (if v = 0 then 1 else v)\<rparr>)"
    and "\<not> (if v = 0 then 1 else v) <s 0"
    and "workersLimiter c = \<lparr>chan_cap = unat (if v = 0 then 1 else v), chan_len = 0\<rparr>"
  using assms
  by (auto simp: create_def resolve_params_def make_chan_def Let_def split: if_splits)

lemma create_nil_Inr:
  assumes "create u None transport getrlimit \<sigma> = Inr (c, \<sigma>')"
  shows "\<exists>v. calculateOptimalWorkersLimit transport getrlimit \<sigma> = Inr v \<and>
           \<sigma>' = \<sigma>(DefaultParams :=
                  (\<sigma> DefaultParams)\<lparr>MaxConcurrentWorkers := (if v = 0 then 1 else v)\<rparr>) \<and>
           \<not> (if v = 0 then 1 else v) <s 0 \<and>
           workersLimiter c = \<lparr>chan_cap = unat (if v = 0 then 1 else v), chan_len = 0\<rparr>"
proof (cases "calculateOptimalWorkersLimit transport getrlimit \<sigma>")
  case (Inl f)
  with assms show ?thesis by (simp add: create_def resolve_params_def)
next
  case (Inr v)
  from create_nil_calc [OF Inr assms] Inr show ?thesis by blast
qed

lemma create_hinted:
  "create ''http://localhost:8080'' None (Some (HttpTransport (Some hinted_transport)))
     (Some soft_limit) store_init =
   Inr (hinted_client,
        store_init(DefaultParams := DefaultParams_init\<lparr>MaxConcurrentWorkers := 30\<rparr>))"
  by (simp add: create_def resolve_params_def calculateOptimalWorkersLimit_def make_chan_def
      store_init_def DefaultParams_init_def DefaultParams_def hinted_transport_def
      soft_limit_def hinted_client_def Let_def word_sless_alt)


text \<open>
  C5, as the code has it. With nil parameters, \<^verbatim>\<open>DefaultParams.MaxConcurrentWorkers\<close>
  at its initial 100, a readable soft limit and a \<^verbatim>\<open>*http.Transport\<close>, the capacity of
  the channel is fixed as follows. Let \<open>m\<close> be the minimum of 100 and the soft limit. The
  three transport fields are tried in the order \<^verbatim>\<open>MaxConnsPerHost\<close>,
  \<^verbatim>\<open>MaxIdleConnsPerHost\<close>, \<^verbatim>\<open>MaxIdleConns\<close>, and the first that is positive and below
  \<open>m\<close> is taken, whether or not a later one is smaller; when none is, \<open>m\<close> is taken. A
  value of 0 (a soft limit of 0) becomes the capacity 1.
\<close>

theorem create_nil_params_capacity:
  assumes "MaxConcurrentWorkers (\<sigma> DefaultParams) = 100"
  shows "cap_workersLimiter (create u None (Some (HttpTransport (Some t))) (Some rLimit) \<sigma>) =
     Some (let m = min 100 (Cur rLimit);
               v = (case List.find (\<lambda>h. 0 <s h \<and> h < m)
                           [MaxConnsPerHost t, MaxIdleConnsPerHost t, MaxIdleConns t] of
                      Some h \<Rightarrow> h
                    | None \<Rightarrow> m)
           in if v = 0 then 1 else unat v)"
proof -
  define v where "v = (case List.find (\<lambda>h. 0 <s h \<and> h < min 100 (Cur rLimit))
                           [MaxConnsPerHost t, MaxIdleConnsPerHost t, MaxIdleConns t] of
                      Some h \<Rightarrow> h
                    | None \<Rightarrow> min 100 (Cur rLimit))"
  have v: "calculateOptimalWorkersLimit (Some (HttpTransport (Some t))) (Some rLimit) \<sigma> = Inr v"
    unfolding calc_first_hint assms v_def ..
  from calc_le_default [OF v] assms have le: "v \<le> 100" by simp
  have nn: "\<not> v <s 0" using le by (rule small_not_negative)
  have n1: "\<not> (1::64 word) <s 0" by (simp add: word_sless_alt)
  have "cap_workersLimiter
          (create u None (Some (HttpTransport (Some t))) (Some rLimit) \<sigma>
             :: fault + ('a Client \<times> store)) =
        Some (if v = 0 then 1 else unat v)"
    using v nn n1
    by (simp add: cap_workersLimiter_def create_def resolve_params_def make_chan_def Let_def)
  then show ?thesis unfolding v_def Let_def .
qed

theorem create_nil_params_capacity_witness:
  "MaxConcurrentWorkers (store_init DefaultParams) = 100 \<and>
   cap_workersLimiter
     (create ''http://localhost:8080'' None (Some (HttpTransport (Some hinted_transport)))
        (Some soft_limit) store_init :: fault + (string Client \<times> store)) = Some 30"
  using create_nil_params_capacity
    [of store_init "''http://localhost:8080''" hinted_transport soft_limit]
  by (simp add: store_init_def DefaultParams_init_def hinted_transport_def soft_limit_def
      word_sless_alt)

text \<open>
  C5, as the specification words it, fails. With the hints 30, 20 and 100 and a soft
  limit of 1024 the capacity is 30, the first hint below 100, and not the smallest one,
  20. With a soft limit of 0 the capacity is 1, and not the minimum, 0.
\<close>

theorem create_nil_params_capacity_counterexample:
  "cap_workersLimiter
     (create ''http://localhost:8080'' None (Some (HttpTransport (Some hinted_transport)))
        (Some soft_limit) store_init :: fault + (string Client \<times> store)) = Some 30 \<and>
   unat (spec_workers_limit soft_limit hinted_transport) = 20 \<and>
   cap_workersLimiter
     (create ''http://localhost:8080'' None (Some (HttpTransport (Some hinted_transport)))
        (Some \<lparr>Cur = 0, Max = 0\<rparr>) store_init :: fault + (string Client \<times> store)) = Some 1 \<and>
   unat (spec_workers_limit \<lparr>Cur = 0, Max = 0\<rparr> hinted_transport) = 0"
  by (simp add: cap_workersLimiter_def create_def resolve_params_def
      calculateOptimalWorkersLimit_def make_chan_def store_init_def DefaultParams_init_def
      DefaultParams_def hinted_transport_def soft_limit_def spec_workers_limit_def Let_def
      word_sless_alt)

text \<open>
  C9. A construction with nil parameters that returns has written the limit it computed
  into \<^verbatim>\<open>DefaultParams.MaxConcurrentWorkers\<close> (1 in place of a computed 0): the global
  then holds the capacity of the new client's channel. The other two fields of the global
  and the structs at other addresses are as before. Every later computation of the limit
  starts from the written value and stays at or below it, and a later construction with
  nil parameters, no transport hints and no readable soft limit gets the earlier client's
  capacity.
\<close>

theorem create_nil_params_writes_DefaultParams:
  assumes "create u None transport getrlimit \<sigma> = Inr (c, \<sigma>')"
  shows "\<exists>v. calculateOptimalWorkersLimit transport getrlimit \<sigma> = Inr v \<and>
     MaxConcurrentWorkers (\<sigma>' DefaultParams) = (if v = 0 then 1 else v) \<and>
     unat (MaxConcurrentWorkers (\<sigma>' DefaultParams)) = chan_cap (workersLimiter c) \<and>
     MaxRequestRate (\<sigma>' DefaultParams) = MaxRequestRate (\<sigma> DefaultParams) \<and>
     MaxRequestsPerRate (\<sigma>' DefaultParams) = MaxRequestsPerRate (\<sigma> DefaultParams) \<and>
     (\<forall>a. a \<noteq> DefaultParams \<longrightarrow> \<sigma>' a = \<sigma> a) \<and>
     (\<forall>w. calculateOptimalWorkersLimit transport' getrlimit' \<sigma>' = Inr w \<longrightarrow>
          w \<le> MaxConcurrentWorkers (\<sigma>' DefaultParams)) \<and>
     cap_workersLimiter (create u' None None None \<sigma>' :: fault + ('b Client \<times> store)) =
       Some (chan_cap (workersLimiter c))"
proof -
  from create_nil_Inr [OF assms] obtain v where
    v: "calculateOptimalWorkersLimit transport getrlimit \<sigma> = Inr v"
    and s': "\<sigma>' = \<sigma>(DefaultParams :=
                  (\<sigma> DefaultParams)\<lparr>MaxConcurrentWorkers := (if v = 0 then 1 else v)\<rparr>)"
    and nn: "\<not> (if v = 0 then 1 else v) <s 0"
    and wl: "workersLimiter c = \<lparr>chan_cap = unat (if v = 0 then 1 else v), chan_len = 0\<rparr>"
    by blast
  have D: "MaxConcurrentWorkers (\<sigma>' DefaultParams) = (if v = 0 then 1 else v)"
    by (simp add: s')
  have nz: "MaxConcurrentWorkers (\<sigma>' DefaultParams) \<noteq> 0" by (simp add: D)
  have later: "cap_workersLimiter (create u' None None None \<sigma>' :: fault + ('b Client \<times> store)) =
       Some (chan_cap (workersLimiter c))"
    using nz nn D wl
    by (simp add: cap_workersLimiter_def create_def resolve_params_def calc_no_hints
        make_chan_def Let_def)
  show ?thesis
  proof (intro exI conjI allI impI)
    show "calculateOptimalWorkersLimit transport getrlimit \<sigma> = Inr v" by (rule v)
    show "MaxConcurrentWorkers (\<sigma>' DefaultParams) = (if v = 0 then 1 else v)" by (rule D)
    show "unat (MaxConcurrentWorkers (\<sigma>' DefaultParams)) = chan_cap (workersLimiter c)"
      by (simp add: D wl)
    show "MaxRequestRate (\<sigma>' DefaultParams) = MaxRequestRate (\<sigma> DefaultParams)"
      by (simp add: s')
    show "MaxRequestsPerRate (\<sigma>' DefaultParams) = MaxRequestsPerRate (\<sigma> DefaultParams)"
      by (simp add: s')
    show "\<sigma>' a = \<sigma> a" if "a \<noteq> DefaultParams" for a using that by (simp add: s')
    show "w \<le> MaxConcurrentWorkers (\<sigma>' DefaultParams)"
      if "calculateOptimalWorkersLimit transport' getrlimit' \<sigma>' = Inr w" for w
      using that by (rule calc_le_default)
    show "cap_workersLimiter (create u' None None None \<sigma>' :: fault + ('b Client \<times> store)) =
       Some (chan_cap (workersLimiter c))" by (rule later)
  qed
qed

theorem create_nil_params_writes_DefaultParams_witness:
  "create ''http://localhost:8080'' None (Some (HttpTransport (Some hinted_transport)))
     (Some soft_limit) store_init =
   Inr (hinted_client,
        store_init(DefaultParams := DefaultParams_init\<lparr>MaxConcurrentWorkers := 30\<rparr>)) \<and>
   MaxConcurrentWorkers (store_init DefaultParams) = 100 \<and>
   MaxConcurrentWorkers
     ((store_init(DefaultParams := DefaultParams_init\<lparr>MaxConcurrentWorkers := 30\<rparr>))
        DefaultParams) = 30 \<and>
   cap_workersLimiter
     (create ''http://localhost:9090'' None None None
        (store_init(DefaultParams := DefaultParams_init\<lparr>MaxConcurrentWorkers := 30\<rparr>))
      :: fault + (string Client \<times> store)) = Some 30"
proof -
  note w = create_nil_params_writes_DefaultParams
    [OF create_hinted, of None None "''http://localhost:9090''"]
  have a: "create ''http://localhost:8080'' None (Some (HttpTransport (Some hinted_transport)))
     (Some soft_limit) store_init =
   Inr (hinted_client,
        store_init(DefaultParams := DefaultParams_init\<lparr>MaxConcurrentWorkers := 30\<rparr>))"
    by (rule create_hinted)
  have b: "MaxConcurrentWorkers (store_init DefaultParams) = 100"
    by (simp add: store_init_def DefaultParams_init_def)
  have c: "MaxConcurrentWorkers
     ((store_init(DefaultParams := DefaultParams_init\<lparr>MaxConcurrentWorkers := 30\<rparr>))
        DefaultParams) = 30"
    by simp
  from w have d: "cap_workersLimiter
     (create ''http://localhost:9090'' None None None
        (store_init(DefaultParams := DefaultParams_init\<lparr>MaxConcurrentWorkers := 30\<rparr>))
      :: fault + (string Client \<times> store)) = Some 30"
    by (auto simp: hinted_client_def)
  from a b c d show ?thesis by blast
qed


section \<open>The worker\<close>

lemma worker_body_frame:
  "cl (worker_body out message s) = cl s"
  "goroutines (worker_body out message s) = goroutines s"
  "returning (worker_body out message s) = returning s"
  "spawned (worker_body out message s) = spawned s"
  "gate_log (worker_body out message s) = gate_log s"
  by (simp_all add: worker_body_def report_def split: option.split)

lemma worker_body_notify_reports:
  "notify_reports (worker_body out message s) = notify_reports s"
  by (simp add: worker_body_def report_def notify_reports_def split: option.split)

lemma release_slot_Inr:
  assumes "0 < chan_len (workersLimiter (cl s))"
  shows "release_slot s =
           Inr (s\<lparr>cl := (cl s)\<lparr>workersLimiter := (workersLimiter (cl s))
                           \<lparr>chan_len := chan_len (workersLimiter (cl s)) - 1\<rparr>\<rparr>\<rparr>)"
  using assms by (simp add: release_slot_def recv_def)

lemma workers_Done_Inr:
  assumes "0 < workers (cl s)"
  shows "workers_Done s = Inr (s\<lparr>cl := (cl s)\<lparr>workers := workers (cl s) - 1\<rparr>\<rparr>)"
  using assms by (simp add: workers_Done_def)

lemma worker_Inr:
  assumes "0 < chan_len (workersLimiter (cl s))" and "0 < workers (cl s)"
  shows "worker out message s =
           Inr ((worker_body out message s)
                  \<lparr>cl := (cl s)\<lparr>workersLimiter := (workersLimiter (cl s))
                                   \<lparr>chan_len := chan_len (workersLimiter (cl s)) - 1\<rparr>,
                               workers := workers (cl s) - 1\<rparr>\<rparr>)"
  using assms
  by (simp add: worker_def release_slot_def workers_Done_def recv_def worker_body_frame)

text \<open>
  C6. A worker that holds its slot runs to its end, and what it tells the handler depends
  on the first of its three calls that fails. If building the request fails, or else the
  wait on the rate limiter, or else the transport call, the handler current at that time
  is called once, with the worker's own message and a pointer to a \<^verbatim>\<open>NotifyErr\<close> whose
  \<^verbatim>\<open>Type\<close> is \<^verbatim>\<open>TypeSendError\<close>, whose \<^verbatim>\<open>Message\<close> is, in this order,
  \<^verbatim>\<open>msgSendErrorRequest\<close>, \<^verbatim>\<open>msgSendErrorRateLimiter\<close> or \<^verbatim>\<open>msgSendErrorClient\<close>, and whose
  \<^verbatim>\<open>Err\<close> is the error that the failing call returned. If no call fails, the handler is
  not called. So the number of calls is 1 when the task fails and 0 when it succeeds.
  \<^verbatim>\<open>Unwrap\<close> of such a value gives the cause back, \<^verbatim>\<open>Is\<close> finds it of the kind
  \<^verbatim>\<open>TypeSendError\<close> (which is 2, and not one of the other two kinds), and the three texts
  differ: they end in the three phrases that name the step.
\<close>

theorem worker_reports_failure_once:
  assumes "0 < chan_len (workersLimiter (cl s))" and "0 < workers (cl s)"
  shows "\<exists>s'. worker out message s = Inr s' \<and>
     (request_err out = Some e \<longrightarrow>
        sink_calls s' = sink_calls s @
          [\<lparr>call_by = ByWorker, call_handler = notifyError (cl s), call_message = message,
            call_err = Some (NotifyErrPtr (Some
                         (NotifyErr TypeSendError msgSendErrorRequest (Some e))))\<rparr>]) \<and>
     (request_err out = None \<and> wait_err out = Some e \<longrightarrow>
        sink_calls s' = sink_calls s @
          [\<lparr>call_by = ByWorker, call_handler = notifyError (cl s), call_message = message,
            call_err = Some (NotifyErrPtr (Some
                         (NotifyErr TypeSendError msgSendErrorRateLimiter (Some e))))\<rparr>]) \<and>
     (request_err out = None \<and> wait_err out = None \<and> do_err out = Some e \<longrightarrow>
        sink_calls s' = sink_calls s @
          [\<lparr>call_by = ByWorker, call_handler = notifyError (cl s), call_message = message,
            call_err = Some (NotifyErrPtr (Some
                         (NotifyErr TypeSendError msgSendErrorClient (Some e))))\<rparr>]) \<and>
     (request_err out = None \<and> wait_err out = None \<and> do_err out = None \<longrightarrow>
        sink_calls s' = sink_calls s) \<and>
     length (sink_calls s') =
       length (sink_calls s) +
       (if request_err out = None \<and> wait_err out = None \<and> do_err out = None then 0 else 1) \<and>
     Message (NotifyErr TypeSendError m (Some e)) = m \<and>
     Unwrap (Some (NotifyErr TypeSendError m (Some e))) = Inr (Some e) \<and>
     Is (Some (NotifyErr TypeSendError m (Some e)))
        (Some (NotifyErrPtr (Some (NotifyErr TypeSendError m' None)))) = Inr True \<and>
     TypeSendError = 2 \<and> TypeSendError \<noteq> TypeContextCanceled \<and>
     TypeSendError \<noteq> TypeWorkersLimitExceeded \<and>
     msgSendErrorRequest = ''Fail send message, unable to create request'' \<and>
     msgSendErrorRateLimiter = ''Fail send message, rate limiter error'' \<and>
     msgSendErrorClient = ''Fail send message, unable to do request'' \<and>
     msgSendErrorRequest \<noteq> msgSendErrorRateLimiter \<and>
     msgSendErrorRequest \<noteq> msgSendErrorClient \<and>
     msgSendErrorRateLimiter \<noteq> msgSendErrorClient"
  unfolding worker_Inr [OF assms]
  by (auto simp add: worker_body_def report_def Unwrap_def Is_def new_NotifyErr_def
      msgSendErrorRequest_def msgSendErrorRateLimiter_def msgSendErrorClient_def
      TypeSendError_def TypeContextCanceled_def TypeWorkersLimitExceeded_def
      split: option.splits)

theorem worker_reports_failure_once_witness:
  "0 < chan_len (workersLimiter (cl one_running)) \<and> 0 < workers (cl one_running) \<and>
   (\<exists>s'. worker bad_url ''m0'' one_running = Inr s' \<and>
      sink_calls s' =
        [\<lparr>call_by = ByWorker, call_handler = NoOp, call_message = ''m0'',
          call_err = Some (NotifyErrPtr (Some
                       (NotifyErr 2 ''Fail send message, unable to create request''
                          (Some (ErrorString ''invalid URL escape'')))))\<rparr>]) \<and>
   (\<exists>s'. worker limiter_stopped ''m0'' one_running = Inr s' \<and>
      sink_calls s' =
        [\<lparr>call_by = ByWorker, call_handler = NoOp, call_message = ''m0'',
          call_err = Some (NotifyErrPtr (Some
                       (NotifyErr 2 ''Fail send message, rate limiter error''
                          (Some (ErrorString ''context canceled'')))))\<rparr>]) \<and>
   (\<exists>s'. worker refused ''m0'' one_running = Inr s' \<and>
      sink_calls s' =
        [\<lparr>call_by = ByWorker, call_handler = NoOp, call_message = ''m0'',
          call_err = Some (NotifyErrPtr (Some
                       (NotifyErr 2 ''Fail send message, unable to do request''
                          (Some (ErrorString ''connection refused'')))))\<rparr>]) \<and>
   (\<exists>s'. worker sent ''m0'' one_running = Inr s' \<and> sink_calls s' = [])"
proof -
  have p: "0 < chan_len (workersLimiter (cl one_running))" "0 < workers (cl one_running)"
    by (simp_all add: one_running_def two_slots_def)
  note w = worker_reports_failure_once [OF p]
  have nil: "sink_calls one_running = []" "notifyError (cl one_running) = NoOp"
    by (simp_all add: one_running_def two_slots_def)
  from w [of bad_url "''m0''" "ErrorString ''invalid URL escape''" "[]" "[]"]
  have a: "\<exists>s'. worker bad_url ''m0'' one_running = Inr s' \<and>
      sink_calls s' =
        [\<lparr>call_by = ByWorker, call_handler = NoOp, call_message = ''m0'',
          call_err = Some (NotifyErrPtr (Some
                       (NotifyErr 2 ''Fail send message, unable to create request''
                          (Some (ErrorString ''invalid URL escape'')))))\<rparr>]"
    by (auto simp: nil bad_url_def)
  from w [of limiter_stopped "''m0''" Canceled "[]" "[]"]
  have b: "\<exists>s'. worker limiter_stopped ''m0'' one_running = Inr s' \<and>
      sink_calls s' =
        [\<lparr>call_by = ByWorker, call_handler = NoOp, call_message = ''m0'',
          call_err = Some (NotifyErrPtr (Some
                       (NotifyErr 2 ''Fail send message, rate limiter error''
                          (Some (ErrorString ''context canceled'')))))\<rparr>]"
    by (auto simp: nil limiter_stopped_def Canceled_def)
  from w [of refused "''m0''" "ErrorString ''connection refused''" "[]" "[]"]
  have c: "\<exists>s'. worker refused ''m0'' one_running = Inr s' \<and>
      sink_calls s' =
        [\<lparr>call_by = ByWorker, call_handler = NoOp, call_message = ''m0'',
          call_err = Some (NotifyErrPtr (Some
                       (NotifyErr 2 ''Fail send message, unable to do request''
                          (Some (ErrorString ''connection refused'')))))\<rparr>]"
    by (auto simp: nil refused_def)
  from w [of sent "''m0''" Canceled "[]" "[]"]
  have d: "\<exists>s'. worker sent ''m0'' one_running = Inr s' \<and> sink_calls s' = []"
    by (auto simp: nil sent_def)
  from p a b c d show ?thesis by blast
qed

section \<open>Other goroutines\<close>

lemma env_step_slots_held:
  assumes "slots_held s"
  shows "\<exists>s1. env_step ev s = Inr s1 \<and> slots_held s1 \<and>
           spawned s1 = spawned s \<and> gate_log s1 = gate_log s \<and>
           notify_reports s1 = notify_reports s \<and>
           notifyError (cl s1) = notifyError (cl s) \<and>
           chan_cap (workersLimiter (cl s1)) = chan_cap (workersLimiter (cl s)) \<and>
           chan_len (workersLimiter (cl s1)) \<le> chan_len (workersLimiter (cl s)) \<and>
           workers (cl s1) \<le> workers (cl s) \<and>
           length (goroutines s1) + returning s1 \<le> length (goroutines s) + returning s"
proof (cases ev)
  case (Finish i out)
  show ?thesis
  proof (cases "i < length (goroutines s)")
    case True
    let ?s0 = "worker_body out (goroutines s ! i)
                 (s\<lparr>goroutines := take i (goroutines s) @ drop (Suc i) (goroutines s)\<rparr>)"
    from True assms have pos: "0 < chan_len (workersLimiter (cl ?s0))"
      by (auto simp: slots_held_def worker_body_frame)
    show ?thesis
      using True assms
      by (auto simp add: env_step_def Finish release_slot_Inr [OF pos] slots_held_def
          worker_body_frame notify_reports_def
          worker_body_notify_reports [unfolded notify_reports_def])
  next
    case False
    then show ?thesis using assms by (simp add: env_step_def Finish)
  qed
next
  case Return
  show ?thesis
  proof (cases "0 < returning s")
    case True
    with assms have pos: "0 < workers (cl s)" by (simp add: slots_held_def)
    show ?thesis
      using True assms
      by (auto simp add: env_step_def Return workers_Done_Inr [OF pos] slots_held_def
          notify_reports_def)
  next
    case False
    then show ?thesis using assms by (simp add: env_step_def Return)
  qed
next
  case Cancel
  then show ?thesis using assms
    by (simp add: env_step_def Stop_def slots_held_def notify_reports_def)
qed

lemma run_env_slots_held:
  assumes "slots_held s"
  shows "\<exists>s1. run_env evs s = Inr s1 \<and> slots_held s1 \<and>
           spawned s1 = spawned s \<and> gate_log s1 = gate_log s \<and>
           notify_reports s1 = notify_reports s \<and>
           notifyError (cl s1) = notifyError (cl s) \<and>
           chan_cap (workersLimiter (cl s1)) = chan_cap (workersLimiter (cl s)) \<and>
           chan_len (workersLimiter (cl s1)) \<le> chan_len (workersLimiter (cl s)) \<and>
           workers (cl s1) \<le> workers (cl s) \<and>
           length (goroutines s1) + returning s1 \<le> length (goroutines s) + returning s"
  using assms
proof (induction evs arbitrary: s)
  case Nil
  then show ?case by simp
next
  case (Cons ev evs)
  from env_step_slots_held [OF Cons.prems, of ev] obtain s1 where
    s1: "env_step ev s = Inr s1" "slots_held s1"
      "spawned s1 = spawned s" "gate_log s1 = gate_log s"
      "notify_reports s1 = notify_reports s"
      "notifyError (cl s1) = notifyError (cl s)"
      "chan_cap (workersLimiter (cl s1)) = chan_cap (workersLimiter (cl s))"
      "chan_len (workersLimiter (cl s1)) \<le> chan_len (workersLimiter (cl s))"
      "workers (cl s1) \<le> workers (cl s)"
      "length (goroutines s1) + returning s1 \<le> length (goroutines s) + returning s"
    by blast
  from Cons.IH [OF s1(2)] obtain s2 where
    s2: "run_env evs s1 = Inr s2" "slots_held s2"
      "spawned s2 = spawned s1" "gate_log s2 = gate_log s1"
      "notify_reports s2 = notify_reports s1"
      "notifyError (cl s2) = notifyError (cl s1)"
      "chan_cap (workersLimiter (cl s2)) = chan_cap (workersLimiter (cl s1))"
      "chan_len (workersLimiter (cl s2)) \<le> chan_len (workersLimiter (cl s1))"
      "workers (cl s2) \<le> workers (cl s1)"
      "length (goroutines s2) + returning s2 \<le> length (goroutines s1) + returning s1"
    by blast
  show ?case using s1 s2 by simp
qed



text \<open>The two steps of a worker, one right after the other, are the function
  \<^verbatim>\<open>worker\<close> run on the system without that goroutine.\<close>

lemma Finish_Return_is_worker:
  assumes "slots_held s" and "i < length (goroutines s)"
    and "env_step (Finish i out) s = Inr s1"
  shows "env_step Return s1 =
           worker out (goroutines s ! i)
             (s\<lparr>goroutines := take i (goroutines s) @ drop (Suc i) (goroutines s)\<rparr>)"
proof -
  let ?s0 = "worker_body out (goroutines s ! i)
               (s\<lparr>goroutines := take i (goroutines s) @ drop (Suc i) (goroutines s)\<rparr>)"
  from assms(1,2) have pos: "0 < chan_len (workersLimiter (cl ?s0))"
    by (auto simp: slots_held_def worker_body_frame)
  from assms(2,3) have s1: "s1 =
      ?s0\<lparr>cl := (cl ?s0)\<lparr>workersLimiter := (workersLimiter (cl ?s0))
                        \<lparr>chan_len := chan_len (workersLimiter (cl ?s0)) - 1\<rparr>\<rparr>,
          returning := returning ?s0 + 1\<rparr>"
    by (simp add: env_step_def release_slot_Inr [OF pos])
  from assms(1,2) have w: "0 < workers (cl ?s0)"
    by (auto simp: slots_held_def worker_body_frame)
  show ?thesis
    unfolding s1 using w
    by (simp add: env_step_def worker_def release_slot_Inr [OF pos] workers_Done_def)
qed

section \<open>The loops of \<^verbatim>\<open>Notify\<close>\<close>

lemma spawn_slots_held:
  assumes "slots_held s" and "try_send (workersLimiter (cl s)) = Some ch"
    and "workers (cl s) + 1 \<le> 2147483647"
  shows "\<exists>s2. spawn ch m s = Inr s2 \<and> slots_held s2 \<and>
           spawned s2 = spawned s @ [m] \<and>
           gate_log s2 = gate_log s @ [True] \<and>
           notify_reports s2 = notify_reports s \<and>
           notifyError (cl s2) = notifyError (cl s) \<and>
           chan_cap (workersLimiter (cl s2)) = chan_cap (workersLimiter (cl s)) \<and>
           chan_len (workersLimiter (cl s2)) = chan_len (workersLimiter (cl s)) + 1 \<and>
           workers (cl s2) = workers (cl s) + 1 \<and>
           length (goroutines s2) + returning s2 = length (goroutines s) + returning s + 1"
  using assms
  by (auto simp: slots_held_def spawn_def try_send_def notify_reports_def split: if_splits)

lemma try_send_None:
  assumes "slots_held s" and "try_send (workersLimiter (cl s)) = None"
  shows "chan_len (workersLimiter (cl s)) = chan_cap (workersLimiter (cl s))"
  using assms by (auto simp: slots_held_def try_send_def split: if_splits)

lemma Notify_admit_run:
  assumes "slots_held s" and "workers (cl s) + int (length messages) \<le> 2147483647"
  shows "\<exists>k err s'. Notify_admit i messages sched s = Inr ((i + k, err), s') \<and>
           slots_held s' \<and> k \<le> length messages \<and>
           spawned s' = spawned s @ take k messages \<and>
           notify_reports s' = notify_reports s \<and>
           notifyError (cl s') = notifyError (cl s) \<and>
           chan_cap (workersLimiter (cl s')) = chan_cap (workersLimiter (cl s)) \<and>
           length (goroutines s') + returning s' \<le> length (goroutines s) + returning s + k \<and>
           min (length messages)
             (chan_cap (workersLimiter (cl s)) - chan_len (workersLimiter (cl s))) \<le> k \<and>
           (k = length messages \<and> err = None \<and>
              gate_log s' = gate_log s @ replicate k True
            \<or>
            k < length messages \<and>
              err = new_NotifyErr TypeWorkersLimitExceeded ''Workers limit exceeded'' None \<and>
              gate_log s' = gate_log s @ replicate k True @ [False] \<and>
              chan_len (workersLimiter (cl s')) = chan_cap (workersLimiter (cl s')))"
  using assms
proof (induction messages arbitrary: i sched s)
  case Nil
  then show ?case by simp
next
  case (Cons m messages)
  from run_env_slots_held [OF Cons.prems(1), of "sched_hd sched"] obtain s1 where
    s1: "run_env (sched_hd sched) s = Inr s1" "slots_held s1"
      "spawned s1 = spawned s" "gate_log s1 = gate_log s"
      "notify_reports s1 = notify_reports s"
      "notifyError (cl s1) = notifyError (cl s)"
      "chan_cap (workersLimiter (cl s1)) = chan_cap (workersLimiter (cl s))"
      "chan_len (workersLimiter (cl s1)) \<le> chan_len (workersLimiter (cl s))"
      "workers (cl s1) \<le> workers (cl s)"
      "length (goroutines s1) + returning s1 \<le> length (goroutines s) + returning s"
    by blast
  show ?case
  proof (cases "try_send (workersLimiter (cl s1))")
    case None
    from try_send_None [OF s1(2) None]
    have full: "chan_len (workersLimiter (cl s1)) = chan_cap (workersLimiter (cl s1))" .
    have run: "Notify_admit i (m # messages) sched s =
        Inr ((i + 0, new_NotifyErr TypeWorkersLimitExceeded ''Workers limit exceeded'' None),
             s1\<lparr>gate_log := gate_log s1 @ [False]\<rparr>)"
      using s1(1) None by simp
    have held: "slots_held (s1\<lparr>gate_log := gate_log s1 @ [False]\<rparr>)"
      using s1(2) by (simp add: slots_held_def)
    have nr: "notify_reports (s1\<lparr>gate_log := gate_log s1 @ [False]\<rparr>) = notify_reports s"
      using s1(5) by (simp add: notify_reports_def)
    show ?thesis
      apply (rule exI [of _ 0])
      apply (rule exI [of _ "new_NotifyErr TypeWorkersLimitExceeded ''Workers limit exceeded'' None"])
      apply (rule exI [of _ "s1\<lparr>gate_log := gate_log s1 @ [False]\<rparr>"])
      using run held nr s1 full by simp
  next
    case (Some ch)
    from Cons.prems(2) s1(9) have room: "workers (cl s1) + 1 \<le> 2147483647" by simp
    from spawn_slots_held [OF s1(2) Some room, of m] obtain s2 where
      sp: "spawn ch m s1 = Inr s2" "slots_held s2"
        "spawned s2 = spawned s1 @ [m]"
        "gate_log s2 = gate_log s1 @ [True]"
        "notify_reports s2 = notify_reports s1"
        "notifyError (cl s2) = notifyError (cl s1)"
        "chan_cap (workersLimiter (cl s2)) = chan_cap (workersLimiter (cl s1))"
        "chan_len (workersLimiter (cl s2)) = chan_len (workersLimiter (cl s1)) + 1"
        "workers (cl s2) = workers (cl s1) + 1"
        "length (goroutines s2) + returning s2 = length (goroutines s1) + returning s1 + 1"
      by blast
    from Cons.prems(2) s1(9) sp(9)
    have room2: "workers (cl s2) + int (length messages) \<le> 2147483647" by simp
    from Cons.IH [OF sp(2) room2, of "i + 1" "tl sched"] obtain k err s' where
      ih: "Notify_admit (i + 1) messages (tl sched) s2 = Inr ((i + 1 + k, err), s')"
        "slots_held s'" "k \<le> length messages"
        "spawned s' = spawned s2 @ take k messages"
        "notify_reports s' = notify_reports s2"
        "notifyError (cl s') = notifyError (cl s2)"
        "chan_cap (workersLimiter (cl s')) = chan_cap (workersLimiter (cl s2))"
        "length (goroutines s') + returning s' \<le> length (goroutines s2) + returning s2 + k"
        "min (length messages)
           (chan_cap (workersLimiter (cl s2)) - chan_len (workersLimiter (cl s2))) \<le> k"
        "k = length messages \<and> err = None \<and>
              gate_log s' = gate_log s2 @ replicate k True
            \<or>
            k < length messages \<and>
              err = new_NotifyErr TypeWorkersLimitExceeded ''Workers limit exceeded'' None \<and>
              gate_log s' = gate_log s2 @ replicate k True @ [False] \<and>
              chan_len (workersLimiter (cl s')) = chan_cap (workersLimiter (cl s'))"
      by blast
    have run: "Notify_admit i (m # messages) sched s = Inr ((i + Suc k, err), s')"
      using s1(1) Some sp(1) ih(1) by simp
    have free: "min (length (m # messages))
             (chan_cap (workersLimiter (cl s)) - chan_len (workersLimiter (cl s))) \<le> Suc k"
      using ih(9) sp(7,8) s1(7,8) by simp
    have cnt: "length (goroutines s') + returning s'
        \<le> length (goroutines s) + returning s + Suc k"
      using ih(8) sp(10) s1(10) by simp
    show ?thesis
      apply (rule exI [of _ "Suc k"])
      apply (rule exI [of _ err])
      apply (rule exI [of _ s'])
      using run free cnt ih(2-7,10) sp(3-7) s1(3-7) by auto
  qed
qed

lemma Notify_admit_undisturbed:
  assumes "workers (cl s) + int (length messages) \<le> 2147483647"
  shows "\<exists>s'. Notify_admit i messages [] s =
          Inr ((i + min (length messages)
                      (chan_cap (workersLimiter (cl s)) - chan_len (workersLimiter (cl s))),
                if length messages
                     \<le> chan_cap (workersLimiter (cl s)) - chan_len (workersLimiter (cl s))
                then None
                else new_NotifyErr TypeWorkersLimitExceeded ''Workers limit exceeded'' None),
               s') \<and>
        gate_log s' = gate_log s @
          replicate (min (length messages)
             (chan_cap (workersLimiter (cl s)) - chan_len (workersLimiter (cl s)))) True @
          (if length messages
                \<le> chan_cap (workersLimiter (cl s)) - chan_len (workersLimiter (cl s))
           then [] else [False]) \<and>
        goroutines s' = goroutines s @
          take (chan_cap (workersLimiter (cl s)) - chan_len (workersLimiter (cl s))) messages \<and>
        sink_calls s' = sink_calls s"
  using assms
proof (induction messages arbitrary: i s)
  case Nil
  show ?case by simp
next
  case (Cons m messages)
  show ?case
  proof (cases "chan_len (workersLimiter (cl s)) < chan_cap (workersLimiter (cl s))")
    case False
    then show ?thesis by (simp add: try_send_def)
  next
    case True
    let ?ch = "(workersLimiter (cl s))\<lparr>chan_len := chan_len (workersLimiter (cl s)) + 1\<rparr>"
    define s2 where
      "s2 = s\<lparr>cl := (cl s)\<lparr>workersLimiter := ?ch, workers := workers (cl s) + 1\<rparr>,
               goroutines := goroutines s @ [m],
               spawned := spawned s @ [m],
               gate_log := gate_log s @ [True]\<rparr>"
    from Cons.prems have sp: "spawn ?ch m s = Inr s2"
      by (simp add: spawn_def s2_def)
    have s2: "gate_log s2 = gate_log s @ [True]" "goroutines s2 = goroutines s @ [m]"
      "sink_calls s2 = sink_calls s"
      by (simp_all add: s2_def)
    have free: "chan_cap (workersLimiter (cl s2)) - chan_len (workersLimiter (cl s2)) =
        chan_cap (workersLimiter (cl s)) - chan_len (workersLimiter (cl s)) - 1"
      by (simp add: s2_def)
    from Cons.prems have room: "workers (cl s2) + int (length messages) \<le> 2147483647"
      by (simp add: s2_def)
    from Cons.IH [OF room, of "i + 1"] obtain s' where
      ih: "Notify_admit (i + 1) messages [] s2 =
          Inr ((i + 1 + min (length messages)
                      (chan_cap (workersLimiter (cl s2)) - chan_len (workersLimiter (cl s2))),
                if length messages
                     \<le> chan_cap (workersLimiter (cl s2)) - chan_len (workersLimiter (cl s2))
                then None
                else new_NotifyErr TypeWorkersLimitExceeded ''Workers limit exceeded'' None),
               s')"
        "gate_log s' = gate_log s2 @
          replicate (min (length messages)
             (chan_cap (workersLimiter (cl s2)) - chan_len (workersLimiter (cl s2)))) True @
          (if length messages
                \<le> chan_cap (workersLimiter (cl s2)) - chan_len (workersLimiter (cl s2))
           then [] else [False])"
        "goroutines s' = goroutines s2 @
          take (chan_cap (workersLimiter (cl s2)) - chan_len (workersLimiter (cl s2))) messages"
        "sink_calls s' = sink_calls s2"
      by blast
    obtain d where d: "chan_cap (workersLimiter (cl s)) - chan_len (workersLimiter (cl s)) = Suc d"
      using True by (metis Suc_diff_Suc)
    have run: "Notify_admit i (m # messages) [] s = Notify_admit (i + 1) messages [] s2"
      using True sp by (simp add: try_send_def)
    show ?thesis
      apply (rule exI [of _ s'])
      using ih unfolding run free d s2
      by simp
  qed
qed

lemma Notify_canceled_run:
  assumes "slots_held s"
  shows "\<exists>s'. Notify_canceled err i messages sched s = Inr ((i + length messages, err), s') \<and>
           slots_held s' \<and>
           spawned s' = spawned s \<and> gate_log s' = gate_log s \<and>
           notify_reports s' = notify_reports s @
             map (\<lambda>m. \<lparr>call_by = ByNotify, call_handler = notifyError (cl s), call_message = m,
                       call_err = new_NotifyErr TypeContextCanceled ''Client context canceled'' err\<rparr>)
               messages \<and>
           notifyError (cl s') = notifyError (cl s) \<and>
           chan_cap (workersLimiter (cl s')) = chan_cap (workersLimiter (cl s)) \<and>
           length (goroutines s') + returning s' \<le> length (goroutines s) + returning s"
  using assms
proof (induction messages arbitrary: i sched s)
  case Nil
  then show ?case by simp
next
  case (Cons m messages)
  from run_env_slots_held [OF Cons.prems, of "sched_hd sched"] obtain s1 where
    s1: "run_env (sched_hd sched) s = Inr s1" "slots_held s1"
      "spawned s1 = spawned s" "gate_log s1 = gate_log s"
      "notify_reports s1 = notify_reports s"
      "notifyError (cl s1) = notifyError (cl s)"
      "chan_cap (workersLimiter (cl s1)) = chan_cap (workersLimiter (cl s))"
      "length (goroutines s1) + returning s1 \<le> length (goroutines s) + returning s"
    by blast
  let ?e = "new_NotifyErr TypeContextCanceled ''Client context canceled'' err"
  let ?s2 = "report ByNotify m ?e s1"
  have s2: "slots_held ?s2" "spawned ?s2 = spawned s" "gate_log ?s2 = gate_log s"
    "notify_reports ?s2 = notify_reports s @
       [\<lparr>call_by = ByNotify, call_handler = notifyError (cl s), call_message = m, call_err = ?e\<rparr>]"
    "notifyError (cl ?s2) = notifyError (cl s)"
    "chan_cap (workersLimiter (cl ?s2)) = chan_cap (workersLimiter (cl s))"
    "length (goroutines ?s2) + returning ?s2 \<le> length (goroutines s) + returning s"
    using s1 by (simp_all add: report_def slots_held_def notify_reports_def)
  from Cons.IH [OF s2(1), of "i + 1" "tl sched"] obtain s' where
    ih: "Notify_canceled err (i + 1) messages (tl sched) ?s2 =
           Inr ((i + 1 + length messages, err), s')"
      "slots_held s'" "spawned s' = spawned ?s2" "gate_log s' = gate_log ?s2"
      "notify_reports s' = notify_reports ?s2 @
             map (\<lambda>m. \<lparr>call_by = ByNotify, call_handler = notifyError (cl ?s2), call_message = m,
                       call_err = ?e\<rparr>) messages"
      "notifyError (cl s') = notifyError (cl ?s2)"
      "chan_cap (workersLimiter (cl s')) = chan_cap (workersLimiter (cl ?s2))"
      "length (goroutines s') + returning s' \<le> length (goroutines ?s2) + returning ?s2"
    by blast
  from ih(8) s2(7)
  have cnt: "length (goroutines s') + returning s' \<le> length (goroutines s) + returning s"
    by (rule order_trans)
  show ?case
    apply (rule exI [of _ s'])
    using s1(1) ih(1-7) s2(1-6) cnt by simp
qed

lemma replicate_True_False_neq:
  "replicate k True @ [False] \<noteq> replicate n True"
proof
  assume a: "replicate k True @ [False] = replicate n True"
  have "False \<in> set (replicate k True @ [False])" by simp
  then have "False \<in> set (replicate n True)" by (simp only: a)
  then show False by simp
qed

lemma replicate_True_False_eq:
  assumes "replicate k True @ [False] = replicate n True @ [False]"
  shows "k = n"
  using arg_cong [OF assms, of length] by simp

lemmas run_defs = Notify_def ctx_Err_def start_def two_slots_def try_send_def spawn_def
  env_step_def worker_body_def release_slot_def workers_Done_def recv_def
  report_def Stop_def slots_held_def notify_reports_def new_NotifyErr_def sent_def refused_def

text \<open>
  C10. \<^verbatim>\<open>Notify\<close> with no message returns at once and leaves the whole system as it
  was: no goroutine is started and the handler is not called. The count is 0 and the
  error is what \<^verbatim>\<open>c.ctx.Err()\<close> returns: nil on a live client, \<^verbatim>\<open>context.Canceled\<close> after
  \<^verbatim>\<open>Stop\<close>.
\<close>

theorem Notify_empty_batch:
  "Notify [] sched s = Inr ((0, ctx_Err (ctx (cl s))), s) \<and>
   Notify [] sched (s\<lparr>cl := (cl s)\<lparr>ctx := Live\<rparr>\<rparr>) =
     Inr ((0, None), s\<lparr>cl := (cl s)\<lparr>ctx := Live\<rparr>\<rparr>) \<and>
   Notify [] sched (s\<lparr>cl := Stop (cl s)\<rparr>) = Inr ((0, Some Canceled), s\<lparr>cl := Stop (cl s)\<rparr>)"
  by (simp add: Notify_def ctx_Err_def Stop_def split: Context.split)

text \<open>
  C1. On a client that is not stopped, whose running workers hold their slots and whose
  wait group has room for the batch (its counter is an \<^verbatim>\<open>int32\<close>), \<^verbatim>\<open>Notify\<close> returns,
  whatever other goroutines do during the call. If its selects took
  the send \<open>k\<close> times and then the default branch (the channel was full after \<open>k\<close>
  messages had been admitted), then \<open>k\<close> is less than the length of the batch, the result
  is \<open>k\<close> with a \<^verbatim>\<open>NotifyErr\<close> of type \<^verbatim>\<open>TypeWorkersLimitExceeded\<close>, the goroutines started
  by the call are those of the first \<open>k\<close> messages, in order, and \<^verbatim>\<open>Notify\<close> itself has
  not called the handler. When no other goroutine does anything during the call and the
  batch is longer than the number of free slots, that is what happens, with \<open>k\<close> the
  number of free slots, and the handler is not called at all.
\<close>

theorem Notify_stops_at_full_gate:
  assumes "slots_held s" and "ctx (cl s) = Live"
    and "workers (cl s) + int (length messages) \<le> 2147483647"
  shows "\<exists>n err s'. Notify messages sched s = Inr ((n, err), s') \<and>
     (gate_log s' = gate_log s @ replicate k True @ [False] \<longrightarrow>
        k < length messages \<and> n = k \<and>
        err = Some (NotifyErrPtr (Some
                (NotifyErr TypeWorkersLimitExceeded ''Workers limit exceeded'' None))) \<and>
        Is (Some (NotifyErr TypeWorkersLimitExceeded m c)) err = Inr True \<and>
        spawned s' = spawned s @ take k messages \<and>
        notify_reports s' = notify_reports s) \<and>
     (sched = [] \<and>
      chan_cap (workersLimiter (cl s)) - chan_len (workersLimiter (cl s)) < length messages \<longrightarrow>
        gate_log s' = gate_log s @
          replicate (chan_cap (workersLimiter (cl s)) - chan_len (workersLimiter (cl s))) True @
          [False] \<and>
        sink_calls s' = sink_calls s)"
proof -
  have N: "Notify messages sched s = Notify_admit 0 messages sched s"
    using assms(2) by (simp add: Notify_def ctx_Err_def)
  from Notify_admit_run [OF assms(1,3), of 0 sched] obtain j err s' where
    run: "Notify_admit 0 messages sched s = Inr ((0 + j, err), s')"
      and sp: "spawned s' = spawned s @ take j messages"
      and nr: "notify_reports s' = notify_reports s"
      and alt: "j = length messages \<and> err = None \<and>
              gate_log s' = gate_log s @ replicate j True
            \<or>
            j < length messages \<and>
              err = new_NotifyErr TypeWorkersLimitExceeded ''Workers limit exceeded'' None \<and>
              gate_log s' = gate_log s @ replicate j True @ [False] \<and>
              chan_len (workersLimiter (cl s')) = chan_cap (workersLimiter (cl s'))"
    by blast
  have first: "k < length messages \<and> j = k \<and>
        err = new_NotifyErr TypeWorkersLimitExceeded ''Workers limit exceeded'' None"
    if g: "gate_log s' = gate_log s @ replicate k True @ [False]"
  proof -
    from alt show ?thesis
    proof (elim disjE conjE)
      assume a: "gate_log s' = gate_log s @ replicate j True"
      from g [symmetric] a
      have "gate_log s @ replicate k True @ [False] = gate_log s @ replicate j True"
        by (rule trans)
      then have "replicate k True @ [False] = replicate j True"
        by (simp only: same_append_eq)
      with replicate_True_False_neq [of k j] show ?thesis by simp
    next
      assume a: "j < length messages"
        "err = new_NotifyErr TypeWorkersLimitExceeded ''Workers limit exceeded'' None"
        "gate_log s' = gate_log s @ replicate j True @ [False]"
      from g [symmetric] a(3)
      have "gate_log s @ replicate k True @ [False] = gate_log s @ replicate j True @ [False]"
        by (rule trans)
      then have "replicate k True @ [False] = replicate j True @ [False]"
        by (simp only: same_append_eq)
      then have "k = j" by (rule replicate_True_False_eq)
      with a show ?thesis by simp
    qed
  qed
  have second: "gate_log s' = gate_log s @
          replicate (chan_cap (workersLimiter (cl s)) - chan_len (workersLimiter (cl s))) True @
          [False] \<and> sink_calls s' = sink_calls s"
    if "sched = []"
      "chan_cap (workersLimiter (cl s)) - chan_len (workersLimiter (cl s)) < length messages"
  proof -
    from Notify_admit_undisturbed [OF assms(3), of 0] obtain t where
      t: "Notify_admit 0 messages [] s =
          Inr ((0 + min (length messages)
                      (chan_cap (workersLimiter (cl s)) - chan_len (workersLimiter (cl s))),
                if length messages
                     \<le> chan_cap (workersLimiter (cl s)) - chan_len (workersLimiter (cl s))
                then None
                else new_NotifyErr TypeWorkersLimitExceeded ''Workers limit exceeded'' None),
               t)"
        "gate_log t = gate_log s @
          replicate (min (length messages)
             (chan_cap (workersLimiter (cl s)) - chan_len (workersLimiter (cl s)))) True @
          (if length messages
                \<le> chan_cap (workersLimiter (cl s)) - chan_len (workersLimiter (cl s))
           then [] else [False])"
        "sink_calls t = sink_calls s"
      by blast
    from t(1) run that(1) have "t = s'" by simp
    with t(2,3) that(2) show ?thesis by (simp add: min_def)
  qed
  have R: "Notify messages sched s = Inr ((j, err), s')"
    using N run by simp
  show ?thesis
  proof (intro exI conjI impI)
    show "Notify messages sched s = Inr ((j, err), s')" by (rule R)
  next
    assume g: "gate_log s' = gate_log s @ replicate k True @ [False]"
    from first [OF g] show "k < length messages" "j = k"
      "err = Some (NotifyErrPtr (Some
                (NotifyErr TypeWorkersLimitExceeded ''Workers limit exceeded'' None)))"
      by (simp_all add: new_NotifyErr_def)
    from first [OF g]
    show "Is (Some (NotifyErr TypeWorkersLimitExceeded m c)) err = Inr True"
      by (simp add: Is_def new_NotifyErr_def)
    from first [OF g] sp show "spawned s' = spawned s @ take k messages" by simp
    show "notify_reports s' = notify_reports s" by (rule nr)
  next
    assume u: "sched = [] \<and>
      chan_cap (workersLimiter (cl s)) - chan_len (workersLimiter (cl s)) < length messages"
    from second [of] u show "gate_log s' = gate_log s @
          replicate (chan_cap (workersLimiter (cl s)) - chan_len (workersLimiter (cl s))) True @
          [False]" "sink_calls s' = sink_calls s"
      by simp_all
  qed
qed

theorem Notify_stops_at_full_gate_witness:
  "slots_held (start two_slots) \<and> ctx (cl (start two_slots)) = Live \<and>
   workers (cl (start two_slots)) + int (length [''m0'', ''m1'', ''m2'', ''m3'']) \<le> 2147483647 \<and>
   (\<exists>s'. Notify [''m0'', ''m1'', ''m2''] [] (start two_slots) =
           Inr ((2, Some (NotifyErrPtr (Some
                   (NotifyErr 1 ''Workers limit exceeded'' None)))), s') \<and>
         gate_log s' = [True, True, False] \<and> spawned s' = [''m0'', ''m1''] \<and>
         sink_calls s' = []) \<and>
   (\<exists>s'. Notify [''m0'', ''m1'', ''m2'', ''m3''] [[], [], [Finish 0 refused]]
           (start two_slots) =
           Inr ((3, Some (NotifyErrPtr (Some
                   (NotifyErr 1 ''Workers limit exceeded'' None)))), s') \<and>
         gate_log s' = [True, True, True, False] \<and> spawned s' = [''m0'', ''m1'', ''m2''] \<and>
         notify_reports s' = [])"
  using Notify_stops_at_full_gate
      [of "start two_slots" "[''m0'', ''m1'', ''m2'']" "[]" 2 "[]" None]
    Notify_stops_at_full_gate
      [of "start two_slots" "[''m0'', ''m1'', ''m2'', ''m3'']" "[[], [], [Finish 0 refused]]"
        3 "[]" None]
  by (simp add: run_defs TypeWorkersLimitExceeded_def numeral_2_eq_2 numeral_3_eq_3)

text \<open>
  C2. On a client that is not stopped, whose running workers hold their slots and whose
  wait group has room for the batch (its counter is an \<^verbatim>\<open>int32\<close>, and \<^verbatim>\<open>Add\<close> panics
  beyond 2147483647), \<^verbatim>\<open>Notify\<close> returns, whatever other goroutines do during the
  call. If every select of
  the call took the send, one for each message of the batch, then the result is the length
  of the batch and the nil error, the goroutines started by the call are those of the
  messages of the batch, in order and one each, and \<^verbatim>\<open>Notify\<close> itself has not called the
  handler. A batch that is not longer than the number of free slots at the call is one
  for which every select takes the send.
\<close>

theorem Notify_admits_whole_batch:
  assumes "slots_held s" and "ctx (cl s) = Live"
    and "workers (cl s) + int (length messages) \<le> 2147483647"
  shows "\<exists>n err s'. Notify messages sched s = Inr ((n, err), s') \<and>
     (gate_log s' = gate_log s @ replicate (length messages) True \<longrightarrow>
        n = length messages \<and> err = None \<and>
        spawned s' = spawned s @ messages \<and>
        notify_reports s' = notify_reports s) \<and>
     (length messages
        \<le> chan_cap (workersLimiter (cl s)) - chan_len (workersLimiter (cl s)) \<longrightarrow>
        gate_log s' = gate_log s @ replicate (length messages) True)"
proof -
  have N: "Notify messages sched s = Notify_admit 0 messages sched s"
    using assms(2) by (simp add: Notify_def ctx_Err_def)
  from Notify_admit_run [OF assms(1,3), of 0 sched] obtain j err s' where
    run: "Notify_admit 0 messages sched s = Inr ((0 + j, err), s')"
      and sp: "spawned s' = spawned s @ take j messages"
      and nr: "notify_reports s' = notify_reports s"
      and free: "min (length messages)
             (chan_cap (workersLimiter (cl s)) - chan_len (workersLimiter (cl s))) \<le> j"
      and alt: "j = length messages \<and> err = None \<and>
              gate_log s' = gate_log s @ replicate j True
            \<or>
            j < length messages \<and>
              err = new_NotifyErr TypeWorkersLimitExceeded ''Workers limit exceeded'' None \<and>
              gate_log s' = gate_log s @ replicate j True @ [False] \<and>
              chan_len (workersLimiter (cl s')) = chan_cap (workersLimiter (cl s'))"
    by blast
  have first: "j = length messages \<and> err = None"
    if g: "gate_log s' = gate_log s @ replicate (length messages) True"
  proof -
    from alt show ?thesis
    proof (elim disjE conjE)
      assume "j = length messages" "err = None"
      then show ?thesis by simp
    next
      assume a: "gate_log s' = gate_log s @ replicate j True @ [False]"
      from a [symmetric] g
      have "gate_log s @ replicate j True @ [False] =
          gate_log s @ replicate (length messages) True"
        by (rule trans)
      then have "replicate j True @ [False] = replicate (length messages) True"
        by (simp only: same_append_eq)
      with replicate_True_False_neq [of j "length messages"] show ?thesis by simp
    qed
  qed
  have second: "gate_log s' = gate_log s @ replicate (length messages) True"
    if "length messages
        \<le> chan_cap (workersLimiter (cl s)) - chan_len (workersLimiter (cl s))"
  proof -
    from free that have "length messages \<le> j" by simp
    with alt show ?thesis by auto
  qed
  have R: "Notify messages sched s = Inr ((j, err), s')"
    using N run by simp
  show ?thesis
  proof (intro exI conjI impI)
    show "Notify messages sched s = Inr ((j, err), s')" by (rule R)
  next
    assume g: "gate_log s' = gate_log s @ replicate (length messages) True"
    from first [OF g] show "j = length messages" "err = None" by simp_all
    from first [OF g] sp show "spawned s' = spawned s @ messages" by simp
    show "notify_reports s' = notify_reports s" by (rule nr)
  next
    assume "length messages
        \<le> chan_cap (workersLimiter (cl s)) - chan_len (workersLimiter (cl s))"
    then show "gate_log s' = gate_log s @ replicate (length messages) True" by (rule second)
  qed
qed

theorem Notify_admits_whole_batch_witness:
  "slots_held (start two_slots) \<and> ctx (cl (start two_slots)) = Live \<and>
   workers (cl (start two_slots)) + int (length [''m0'', ''m1'', ''m2'']) \<le> 2147483647 \<and>
   (\<exists>s'. Notify [''m0'', ''m1''] [] (start two_slots) = Inr ((2, None), s') \<and>
         gate_log s' = [True, True] \<and> spawned s' = [''m0'', ''m1''] \<and>
         goroutines s' = [''m0'', ''m1''] \<and> sink_calls s' = []) \<and>
   (\<exists>s'. Notify [''m0'', ''m1'', ''m2''] [[], [], [Finish 0 sent]] (start two_slots) =
           Inr ((3, None), s') \<and>
         gate_log s' = [True, True, True] \<and> spawned s' = [''m0'', ''m1'', ''m2''] \<and>
         goroutines s' = [''m1'', ''m2''] \<and> sink_calls s' = [])"
  using Notify_admits_whole_batch [of "start two_slots" "[''m0'', ''m1'']" "[]"]
    Notify_admits_whole_batch
      [of "start two_slots" "[''m0'', ''m1'', ''m2'']" "[[], [], [Finish 0 sent]]"]
  by (simp add: run_defs numeral_2_eq_2 numeral_3_eq_3)

section \<open>\<^verbatim>\<open>Notify\<close> after \<^verbatim>\<open>Stop\<close>\<close>

lemma Notify_stopped_run:
  assumes "slots_held s" and "ctx (cl s) = CanceledCtx"
  shows "\<exists>s'. Notify messages sched s = Inr ((length messages, Some Canceled), s') \<and>
           spawned s' = spawned s \<and> gate_log s' = gate_log s \<and>
           notify_reports s' = notify_reports s @
             map (\<lambda>m. \<lparr>call_by = ByNotify, call_handler = notifyError (cl s), call_message = m,
                       call_err = new_NotifyErr TypeContextCanceled ''Client context canceled''
                                    (Some Canceled)\<rparr>)
               messages"
  using Notify_canceled_run [OF assms(1), of "Some Canceled" 0 messages sched] assms(2)
  by (auto simp: Notify_def ctx_Err_def)

text \<open>
  C3, at a batch of two messages on \<open>two_slots\<close> after \<^verbatim>\<open>Stop\<close>. The handler is called once
  for each message with a \<^verbatim>\<open>NotifyErr\<close> of type \<^verbatim>\<open>TypeContextCanceled\<close>, no goroutine is
  started, and the count is 2. The error returned is \<^verbatim>\<open>context.Canceled\<close> itself, the
  value of \<^verbatim>\<open>c.ctx.Err()\<close>: it is not a \<^verbatim>\<open>NotifyErr\<close>, and \<^verbatim>\<open>Is\<close> of a \<^verbatim>\<open>NotifyErr\<close> of
  type \<^verbatim>\<open>TypeContextCanceled\<close> against it is false, while against the error passed to the
  handler it is true. The comment on \<^verbatim>\<open>Notify\<close> says that it returns a \<^verbatim>\<open>NotifyErr\<close> with
  the type \<^verbatim>\<open>TypeContextCanceled\<close>.
\<close>

theorem Notify_after_Stop_returns_context_error:
  "Notify [''m0'', ''m1''] [] (start (Stop two_slots)) =
     Inr ((2, Some Canceled),
          (start (Stop two_slots))
            \<lparr>sink_calls :=
               [\<lparr>call_by = ByNotify, call_handler = NoOp, call_message = ''m0'',
                 call_err = Some (NotifyErrPtr (Some
                              (NotifyErr TypeContextCanceled ''Client context canceled''
                                 (Some Canceled))))\<rparr>,
                \<lparr>call_by = ByNotify, call_handler = NoOp, call_message = ''m1'',
                 call_err = Some (NotifyErrPtr (Some
                              (NotifyErr TypeContextCanceled ''Client context canceled''
                                 (Some Canceled))))\<rparr>]\<rparr>) \<and>
   Canceled = ErrorString ''context canceled'' \<and>
   Is (Some (NotifyErr TypeContextCanceled [] None)) (Some Canceled) = Inr False \<and>
   Is (Some (NotifyErr TypeContextCanceled [] None))
      (Some (NotifyErrPtr (Some
         (NotifyErr TypeContextCanceled ''Client context canceled'' (Some Canceled))))) =
     Inr True"
  by (simp add: run_defs Is_def Canceled_def)

section \<open>Sequences of calls\<close>








end
